theory Spec2Isabelle
  imports Main
begin

section \<open>Values that cross the HTTP boundary\<close>

text \<open>
  Request bodies are JSON objects. A body is a finite map from field names to JSON
  values; a field the client did not send is \<open>None\<close> (JavaScript's \<open>undefined\<close>).
  JSON numbers are restricted to whole numbers, of any size; nested arrays and objects are
  left out (every schema below rejects them as it rejects \<open>JNull\<close>).
  A JavaScript string is a list of code units; the model has the code units below 256,
  so \<open>length\<close> is JavaScript's \<open>.length\<close>.
\<close>

datatype json = JNull | JBool bool | JNum int | JStr string

type_synonym body = "string \<rightharpoonup> json"

subsection \<open>What a handler can catch\<close>

text \<open>
  \<open>ZodError\<close> is what \<open>schema.parse\<close> throws, with its issues (field and issue code);
  \<open>JsError m\<close> is any other \<open>Error\<close> with message \<open>m\<close>; \<open>NonError\<close> is a thrown
  value that is no \<open>Error\<close> (the handlers test \<open>error instanceof Error\<close>).
\<close>

datatype issue_code =
  invalid_type | too_small | too_big | invalid_string | invalid_enum_value | invalid_union

type_synonym issue = "string \<times> issue_code"

datatype thrown = ZodError "issue list" | JsError string | NonError

subsection \<open>Responses\<close>

text \<open>
  \<open>error.message\<close> of a \<open>ZodError\<close> is the JSON text of its issues; it is kept
  structured as \<open>Issues\<close>. The payloads are the objects the handlers pass to \<open>res.json\<close>.
\<close>

datatype message = Text string | Issues "issue list"

datatype reply =
    VerifyOk string
  | BanOk string
  | UsersOk "string list"
  | LicenseOk string
  | SuccessOk
  | Failure string message
  | ErrorOnly string
  | NotBanned
  | IsBanned string "int option"
  | LimitInfo nat int bool
  | Recorded string

record response =
  status :: nat
  payload :: reply

definition respond :: "nat \<Rightarrow> reply \<Rightarrow> response" where
  "respond code r = \<lparr>status = code, payload = r\<rparr>"

section \<open>The persistent store\<close>

text \<open>
  The document store holds the \<open>users\<close> collection, keyed by uid, and the two
  collections of the network-abuse routes, each a list of (document id, data) in the order
  in which a query returns the documents. Timestamps are integers on the clock's scale
  (for \<open>expiresAt\<close>, the instant that \<open>toDate()\<close> yields).
  \<open>outage = Some m\<close> is a store that cannot be reached: every call on it throws an
  \<open>Error\<close> with message \<open>m\<close>.
\<close>

text \<open>
  A field of a document is untyped. The \<open>isAdmin\<close> field of a user document may be
  absent (\<open>None\<close>, read as \<open>undefined\<close>), or hold null, a boolean, a number (a whole
  number here), a string, or a value of any other kind (\<open>FObject\<close>: a timestamp, an
  array, a map, ...). \<open>truthy\<close> is JavaScript's conversion to boolean, which \<open>!x\<close>
  negates.
\<close>

datatype fieldValue = FNull | FBool bool | FNum int | FStr string | FObject

definition truthy :: "fieldValue option \<Rightarrow> bool" where
  "truthy v =
     (case v of
        None \<Rightarrow> False
      | Some FNull \<Rightarrow> False
      | Some (FBool b) \<Rightarrow> b
      | Some (FNum n) \<Rightarrow> n \<noteq> 0
      | Some (FStr s) \<Rightarrow> s \<noteq> []
      | Some FObject \<Rightarrow> True)"

record user =
  isAdmin :: "fieldValue option"

record IPBan =
  ipAddress :: string
  reason :: string
  bannedAt :: int
  expiresAt :: "int option"

record UserIP =
  userId :: string
  email :: "string option"
  ipAddress :: string
  recordedAt :: int
  lastUsed :: int

record db =
  outage :: "string option"
  users :: "string \<rightharpoonup> user"
  ip_bans :: "(string \<times> IPBan) list"
  user_ips :: "(string \<times> UserIP) list"

section \<open>External collaborators\<close>

text \<open>
  The identity provider, zod's IP-literal tests and the \<open>FirebaseAdminService\<close>
  operations other than \<open>verifyAdmin\<close> are not part of the sources; they are
  parameters. \<open>verifyIdToken\<close> either rejects a token with a message (\<open>Inl\<close>) or
  yields the uid the token carries. A service operation runs on the store and either
  throws or returns its result, with the store it leaves behind.
\<close>

record env =
  verifyIdToken :: "string \<Rightarrow> string + string"
  ipv4 :: "string \<Rightarrow> bool"
  ipv6 :: "string \<Rightarrow> bool"
  banUser :: "string \<Rightarrow> string \<Rightarrow> string \<Rightarrow> int \<Rightarrow> db \<Rightarrow> (thrown + string) \<times> db"
  banIP :: "string \<Rightarrow> string \<Rightarrow> string \<Rightarrow> int \<Rightarrow> db \<Rightarrow> (thrown + string) \<times> db"
  deleteUser :: "string \<Rightarrow> string \<Rightarrow> db \<Rightarrow> (thrown + unit) \<times> db"
  createLicense :: "string \<Rightarrow> string \<Rightarrow> int \<Rightarrow> db \<Rightarrow> (thrown + string) \<times> db"
  getAllUsers :: "db \<Rightarrow> (thrown + string list) \<times> db"

text \<open>The calls a privileged handler makes outside its own process, in order.\<close>

datatype call =
    IdpVerify string
  | StoreGetUser string
  | SvcBanUser string string string int
  | SvcBanIP string string string int
  | SvcDeleteUser string string
  | SvcCreateLicense string string int
  | SvcGetAllUsers

record outcome =
  sent :: response
  store :: db
  calls :: "call list"

section \<open>Input validation (zod schemas)\<close>

text \<open>
  \<open>/^[A-Za-z0-9_\-\.]+$/\<close>: one or more characters of the class, and nothing else
  (without the \<open>m\<close> flag \<open>$\<close> matches at the end of the input only).
\<close>

definition tokenChar :: "char \<Rightarrow> bool" where
  "tokenChar c =
     (let n = (of_char c :: nat) in
        (65 \<le> n \<and> n \<le> 90) \<or> (97 \<le> n \<and> n \<le> 122) \<or> (48 \<le> n \<and> n \<le> 57)
        \<or> c = CHR ''_'' \<or> c = CHR ''-'' \<or> c = CHR ''.'')"

definition tokenFormat :: "string \<Rightarrow> bool" where
  "tokenFormat s = (s \<noteq> [] \<and> list_all tokenChar s)"

text \<open>
  \<open>String.prototype.trim\<close> removes white space and line terminators at both ends; among
  the code units below 256 these are TAB, LF, VT, FF, CR, SP and NBSP.
\<close>

definition isWhiteSpace :: "char \<Rightarrow> bool" where
  "isWhiteSpace c =
     (c \<in> {CHR 0x09, CHR 0x0A, CHR 0x0B, CHR 0x0C, CHR 0x0D, CHR 0x20, CHR 0xA0})"

definition trim :: "string \<Rightarrow> string" where
  "trim s = rev (dropWhile isWhiteSpace (rev (dropWhile isWhiteSpace s)))"

text \<open>
  A zod string schema is the list of its checks in the order of the method chain, and
  \<open>ZodString._parse\<close> runs them in that order over the current value: \<open>min\<close>,
  \<open>max\<close> and \<open>regex\<close> add an issue when the current value fails them, \<open>trim\<close>
  replaces the current value by its trimmed form.
\<close>

datatype check = MinLen nat | MaxLen nat | Regex "string \<Rightarrow> bool" | Trim

fun runChecks :: "check list \<Rightarrow> issue_code list \<Rightarrow> string \<Rightarrow> issue_code list \<times> string" where
  "runChecks [] errs s = (errs, s)"
| "runChecks (MinLen n # cs) errs s =
     runChecks cs (if length s < n then errs @ [too_small] else errs) s"
| "runChecks (MaxLen n # cs) errs s =
     runChecks cs (if length s > n then errs @ [too_big] else errs) s"
| "runChecks (Regex p # cs) errs s =
     runChecks cs (if p s then errs else errs @ [invalid_string]) s"
| "runChecks (Trim # cs) errs s = runChecks cs errs (trim s)"

definition zString :: "check list \<Rightarrow> json option \<Rightarrow> issue_code list + string" where
  "zString cs v =
     (case v of
        Some (JStr s) \<Rightarrow>
          (case runChecks cs [] s of
             (errs, out) \<Rightarrow> if errs = [] then Inr out else Inl errs)
      | _ \<Rightarrow> Inl [invalid_type])"

text \<open>\<open>z.number().int().min(lo).max(hi)\<close> on the whole numbers of the model.\<close>

definition zInt :: "int \<Rightarrow> int \<Rightarrow> json option \<Rightarrow> issue_code list + int" where
  "zInt lo hi v =
     (case v of
        Some (JNum n) \<Rightarrow>
          (let errs = (if n < lo then [too_small] else []) @ (if n > hi then [too_big] else [])
           in if errs = [] then Inr n else Inl errs)
      | _ \<Rightarrow> Inl [invalid_type])"

definition zEnum :: "string list \<Rightarrow> json option \<Rightarrow> issue_code list + string" where
  "zEnum opts v =
     (case v of
        Some (JStr s) \<Rightarrow> if s \<in> set opts then Inr s else Inl [invalid_enum_value]
      | _ \<Rightarrow> Inl [invalid_type])"

text \<open>
  \<open>z.string().ip({version: "v4"}).or(z.string().ip({version: "v6"}))\<close>: a string passes
  when one of the two members accepts it; otherwise the union reports the first member's
  issue, and for a value that is no string an \<open>invalid_union\<close>.
\<close>

definition zIp :: "env \<Rightarrow> json option \<Rightarrow> issue_code list + string" where
  "zIp e v =
     (case v of
        Some (JStr s) \<Rightarrow> if ipv4 e s \<or> ipv6 e s then Inr s else Inl [invalid_string]
      | _ \<Rightarrow> Inl [invalid_union])"

definition issuesOf :: "string \<Rightarrow> issue_code list + 'a \<Rightarrow> issue list" where
  "issuesOf field r = (case r of Inl errs \<Rightarrow> map (Pair field) errs | Inr _ \<Rightarrow> [])"

definition idTokenField :: "body \<Rightarrow> issue_code list + string" where
  "idTokenField b = zString [MinLen 10, MaxLen 3000, Regex tokenFormat] (b ''idToken'')"

definition VerifyAdminSchema :: "body \<Rightarrow> thrown + string" where
  "VerifyAdminSchema b =
     (case idTokenField b of
        Inr tok \<Rightarrow> Inr tok
      | Inl errs \<Rightarrow> Inl (ZodError (issuesOf ''idToken'' (idTokenField b))))"

definition BanUserSchema :: "body \<Rightarrow> thrown + string \<times> string \<times> string \<times> int" where
  "BanUserSchema b =
     (let t = idTokenField b;
          u = zString [MinLen 10, MaxLen 100] (b ''userId'');
          r = zString [MinLen 5, MaxLen 500, Trim] (b ''reason'');
          d = zInt 1 36500 (b ''duration'')
      in case (t, u, r, d) of
           (Inr tok, Inr uid, Inr rsn, Inr dur) \<Rightarrow> Inr (tok, uid, rsn, dur)
         | _ \<Rightarrow> Inl (ZodError (issuesOf ''idToken'' t @ issuesOf ''userId'' u
                       @ issuesOf ''reason'' r @ issuesOf ''duration'' d)))"

definition CreateLicenseSchema :: "body \<Rightarrow> thrown + string \<times> string \<times> int" where
  "CreateLicenseSchema b =
     (let t = idTokenField b;
          p = zEnum [''Free'', ''Classic'', ''Pro''] (b ''plan'');
          v = zInt 1 3650 (b ''validityDays'')
      in case (t, p, v) of
           (Inr tok, Inr plan, Inr days) \<Rightarrow> Inr (tok, plan, days)
         | _ \<Rightarrow> Inl (ZodError (issuesOf ''idToken'' t @ issuesOf ''plan'' p
                       @ issuesOf ''validityDays'' v)))"

definition BanIPSchema :: "env \<Rightarrow> body \<Rightarrow> thrown + string \<times> string \<times> string \<times> int" where
  "BanIPSchema e b =
     (let t = idTokenField b;
          a = zIp e (b ''ipAddress'');
          r = zString [MinLen 5, MaxLen 500, Trim] (b ''reason'');
          d = zInt 1 36500 (b ''duration'')
      in case (t, a, r, d) of
           (Inr tok, Inr addr, Inr rsn, Inr dur) \<Rightarrow> Inr (tok, addr, rsn, dur)
         | _ \<Rightarrow> Inl (ZodError (issuesOf ''idToken'' t @ issuesOf ''ipAddress'' a
                       @ issuesOf ''reason'' r @ issuesOf ''duration'' d)))"

text \<open>The schema written inline in \<open>handleDeleteUser\<close>.\<close>

definition DeleteUserSchema :: "body \<Rightarrow> thrown + string \<times> string" where
  "DeleteUserSchema b =
     (let t = idTokenField b;
          u = zString [MinLen 10, MaxLen 100] (b ''userId'')
      in case (t, u) of
           (Inr tok, Inr uid) \<Rightarrow> Inr (tok, uid)
         | _ \<Rightarrow> Inl (ZodError (issuesOf ''idToken'' t @ issuesOf ''userId'' u)))"

section \<open>The privilege gate\<close>

text \<open>
  \<open>verifyAdmin\<close> (SECURITY.md): verify the token with the identity provider, read the
  user document of the uid it yields, and throw \<open>Unauthorized: Not an admin\<close> unless
  the document exists and its \<open>isAdmin\<close> is truthy. It returns what the caller gets
  (the uid, or what was thrown) and the calls made.
\<close>

definition NotAdmin :: thrown where
  "NotAdmin = JsError ''Unauthorized: Not an admin''"

definition getUser :: "db \<Rightarrow> string \<Rightarrow> thrown + user option" where
  "getUser d uid = (case outage d of Some m \<Rightarrow> Inl (JsError m) | None \<Rightarrow> Inr (users d uid))"

text \<open>\<open>userDoc.data()?.isAdmin\<close>, converted to boolean.\<close>

definition truthyFlag :: "user option \<Rightarrow> bool" where
  "truthyFlag doc = (case doc of None \<Rightarrow> False | Some u \<Rightarrow> truthy (isAdmin u))"

definition verifyAdmin :: "env \<Rightarrow> db \<Rightarrow> string \<Rightarrow> (thrown + string) \<times> call list" where
  "verifyAdmin e d idToken =
     (case verifyIdToken e idToken of
        Inl m \<Rightarrow> (Inl (JsError m), [IdpVerify idToken])
      | Inr uid \<Rightarrow>
          (case getUser d uid of
             Inl err \<Rightarrow> (Inl err, [IdpVerify idToken, StoreGetUser uid])
           | Inr userDoc \<Rightarrow>
               if userDoc = None \<or> \<not> truthyFlag userDoc
               then (Inl NotAdmin, [IdpVerify idToken, StoreGetUser uid])
               else (Inr uid, [IdpVerify idToken, StoreGetUser uid])))"

section \<open>Privileged route handlers\<close>

text \<open>
  Each handler is its \<open>try\<close> block followed by its \<open>catch\<close> block: where the
  \<open>try\<close> block throws, the response is built from the thrown value. A handler returns the
  response it sends, the store it leaves and the calls it made.
\<close>

definition isZodError :: "thrown \<Rightarrow> bool" where
  "isZodError err = (case err of ZodError _ \<Rightarrow> True | _ \<Rightarrow> False)"

text \<open>\<open>error instanceof Error ? error.message : fallback\<close>\<close>

definition messageOf :: "string \<Rightarrow> thrown \<Rightarrow> message" where
  "messageOf fallback err =
     (case err of ZodError iss \<Rightarrow> Issues iss | JsError m \<Rightarrow> Text m | NonError \<Rightarrow> Text fallback)"

definition handleVerifyAdmin :: "env \<Rightarrow> db \<Rightarrow> body \<Rightarrow> outcome" where
  "handleVerifyAdmin e d b =
     (let catch = (\<lambda>err cs.
            \<lparr>sent = respond (if isZodError err then 400 else 401)
                      (Failure ''Unauthorized'' (messageOf ''Verification failed'' err)),
             store = d, calls = cs\<rparr>)
      in case VerifyAdminSchema b of
           Inl err \<Rightarrow> catch err []
         | Inr idToken \<Rightarrow>
             (case verifyAdmin e d idToken of
                (Inl err, cs) \<Rightarrow> catch err cs
              | (Inr adminUid, cs) \<Rightarrow>
                  \<lparr>sent = respond 200 (VerifyOk adminUid), store = d, calls = cs\<rparr>))"

definition handleBanUser :: "env \<Rightarrow> db \<Rightarrow> body \<Rightarrow> outcome" where
  "handleBanUser e d b =
     (let catch = (\<lambda>err d' cs.
            \<lparr>sent = respond (if isZodError err \<or> err = JsError ''User not found'' then 400 else 401)
                      (Failure ''Failed to ban user'' (messageOf ''Operation failed'' err)),
             store = d', calls = cs\<rparr>)
      in case BanUserSchema b of
           Inl err \<Rightarrow> catch err d []
         | Inr (idToken, uid, rsn, dur) \<Rightarrow>
             (case verifyAdmin e d idToken of
                (Inl err, cs) \<Rightarrow> catch err d cs
              | (Inr adminUid, cs) \<Rightarrow>
                  (case banUser e adminUid uid rsn dur d of
                     (Inl err, d') \<Rightarrow> catch err d' (cs @ [SvcBanUser adminUid uid rsn dur])
                   | (Inr banId, d') \<Rightarrow>
                       \<lparr>sent = respond 200 (BanOk banId), store = d',
                        calls = cs @ [SvcBanUser adminUid uid rsn dur]\<rparr>)))"

text \<open>
  \<open>handleGetAllUsers\<close> reads the token from the \<open>Authorization\<close> header (absent:
  \<open>None\<close>) and checks it by hand; every failure is answered with status 401.
\<close>

definition startsWith :: "string \<Rightarrow> string \<Rightarrow> bool" where
  "startsWith s p = (take (length p) s = p)"

definition handleGetAllUsers :: "env \<Rightarrow> db \<Rightarrow> string option \<Rightarrow> outcome" where
  "handleGetAllUsers e d authorization =
     (let catch = (\<lambda>err d' cs.
            \<lparr>sent = respond 401 (Failure ''Unauthorized'' (messageOf ''Operation failed'' err)),
             store = d', calls = cs\<rparr>)
      in case authorization of
           None \<Rightarrow> catch (JsError ''Missing or invalid authorization header'') d []
         | Some authHeader \<Rightarrow>
             if \<not> startsWith authHeader ''Bearer ''
             then catch (JsError ''Missing or invalid authorization header'') d []
             else
               (let idToken = trim (drop 7 authHeader)
                in if idToken = [] \<or> length idToken < 10 \<or> length idToken > 3000
                   then catch (JsError ''Invalid token format'') d []
                   else
                     (case verifyAdmin e d idToken of
                        (Inl err, cs) \<Rightarrow> catch err d cs
                      | (Inr adminUid, cs) \<Rightarrow>
                          (case getAllUsers e d of
                             (Inl err, d') \<Rightarrow> catch err d' (cs @ [SvcGetAllUsers])
                           | (Inr us, d') \<Rightarrow>
                               \<lparr>sent = respond 200 (UsersOk us), store = d',
                                calls = cs @ [SvcGetAllUsers]\<rparr>))))"

definition handleCreateLicense :: "env \<Rightarrow> db \<Rightarrow> body \<Rightarrow> outcome" where
  "handleCreateLicense e d b =
     (let catch = (\<lambda>err d' cs.
            \<lparr>sent = respond (if isZodError err then 400 else 401)
                      (Failure ''Failed to create license'' (messageOf ''Operation failed'' err)),
             store = d', calls = cs\<rparr>)
      in case CreateLicenseSchema b of
           Inl err \<Rightarrow> catch err d []
         | Inr (idToken, plan, days) \<Rightarrow>
             (case verifyAdmin e d idToken of
                (Inl err, cs) \<Rightarrow> catch err d cs
              | (Inr adminUid, cs) \<Rightarrow>
                  (case createLicense e adminUid plan days d of
                     (Inl err, d') \<Rightarrow> catch err d' (cs @ [SvcCreateLicense adminUid plan days])
                   | (Inr licenseKey, d') \<Rightarrow>
                       \<lparr>sent = respond 200 (LicenseOk licenseKey), store = d',
                        calls = cs @ [SvcCreateLicense adminUid plan days]\<rparr>)))"

definition handleBanIP :: "env \<Rightarrow> db \<Rightarrow> body \<Rightarrow> outcome" where
  "handleBanIP e d b =
     (let catch = (\<lambda>err d' cs.
            \<lparr>sent = respond (if isZodError err then 400 else 401)
                      (Failure ''Failed to ban IP'' (messageOf ''Operation failed'' err)),
             store = d', calls = cs\<rparr>)
      in case BanIPSchema e b of
           Inl err \<Rightarrow> catch err d []
         | Inr (idToken, addr, rsn, dur) \<Rightarrow>
             (case verifyAdmin e d idToken of
                (Inl err, cs) \<Rightarrow> catch err d cs
              | (Inr adminUid, cs) \<Rightarrow>
                  (case banIP e adminUid addr rsn dur d of
                     (Inl err, d') \<Rightarrow> catch err d' (cs @ [SvcBanIP adminUid addr rsn dur])
                   | (Inr banId, d') \<Rightarrow>
                       \<lparr>sent = respond 200 (BanOk banId), store = d',
                        calls = cs @ [SvcBanIP adminUid addr rsn dur]\<rparr>)))"

definition handleDeleteUser :: "env \<Rightarrow> db \<Rightarrow> body \<Rightarrow> outcome" where
  "handleDeleteUser e d b =
     (let catch = (\<lambda>err d' cs.
            \<lparr>sent = respond (if isZodError err then 400 else 401)
                      (Failure ''Failed to delete user'' (messageOf ''Operation failed'' err)),
             store = d', calls = cs\<rparr>)
      in case DeleteUserSchema b of
           Inl err \<Rightarrow> catch err d []
         | Inr (idToken, uid) \<Rightarrow>
             (case verifyAdmin e d idToken of
                (Inl err, cs) \<Rightarrow> catch err d cs
              | (Inr adminUid, cs) \<Rightarrow>
                  (case deleteUser e adminUid uid d of
                     (Inl err, d') \<Rightarrow> catch err d' (cs @ [SvcDeleteUser adminUid uid])
                   | (Inr _, d') \<Rightarrow>
                       \<lparr>sent = respond 200 SuccessOk, store = d',
                        calls = cs @ [SvcDeleteUser adminUid uid]\<rparr>)))"

text \<open>The admin a service call is made on behalf of, for the four moderation services.\<close>

definition adminOf :: "call \<Rightarrow> string option" where
  "adminOf c =
     (case c of
        SvcBanUser a _ _ _ \<Rightarrow> Some a
      | SvcBanIP a _ _ _ \<Rightarrow> Some a
      | SvcDeleteUser a _ \<Rightarrow> Some a
      | SvcCreateLicense a _ _ \<Rightarrow> Some a
      | _ \<Rightarrow> None)"

section \<open>Network-abuse routes\<close>

text \<open>
  These handlers take plain fields from the body, with no token and no schema. The fields
  are taken at the types the interfaces \<open>IPBan\<close> and \<open>UserIP\<close> give them: strings, and
  a whole number for \<open>maxAccounts\<close>; \<open>None\<close> is a field the body does not have.
  \<open>!x\<close> holds for a missing field, the empty string and the number 0; past that guard
  a field is present and \<open>the\<close> reads it. A handler returns its response and the store it
  leaves. Whatever is thrown inside a handler's \<open>try\<close> block is answered by its
  \<open>catch\<close> with status 500 and a fixed body.
\<close>

definition falsyStr :: "string option \<Rightarrow> bool" where
  "falsyStr v = (case v of None \<Rightarrow> True | Some s \<Rightarrow> s = [])"

definition falsyNum :: "int option \<Rightarrow> bool" where
  "falsyNum v = (case v of None \<Rightarrow> True | Some n \<Rightarrow> n = 0)"

subsection \<open>What the routes import\<close>

text \<open>
  The routes import \<open>Timestamp\<close>, \<open>query\<close>, \<open>collection\<close>, \<open>where\<close> and
  \<open>getDocs\<close> by name from \<open>firebase-admin/firestore\<close>. The values that module exports
  are listed below; the four functions are those of the client SDK and are not among them.
  A name the module does not export is bound to \<open>undefined\<close>, and calling it throws a
  \<open>TypeError\<close>.
\<close>

definition adminFirestoreExports :: "string list" where
  "adminFirestoreExports =
     [''AggregateField'', ''BulkWriter'', ''BundleBuilder'', ''CollectionGroup'',
      ''CollectionReference'', ''DocumentReference'', ''DocumentSnapshot'', ''FieldPath'',
      ''FieldValue'', ''Filter'', ''Firestore'', ''GeoPoint'', ''GrpcStatus'', ''Query'',
      ''QueryDocumentSnapshot'', ''QueryPartition'', ''QuerySnapshot'', ''Timestamp'',
      ''Transaction'', ''WriteBatch'', ''WriteResult'', ''v1'', ''setLogFunction'',
      ''getFirestore'', ''initializeFirestore'']"

text \<open>The first of the names, in the order in which they are called, that is not exported.\<close>

definition missingImport :: "string list \<Rightarrow> string option" where
  "missingImport names = find (\<lambda>name. name \<notin> set adminFirestoreExports) names"

subsection \<open>Store calls\<close>

text \<open>
  \<open>getDocs(query(collection(adminDB, name), where(field, "==", value)))\<close>: the handler
  calls \<open>collection\<close>, \<open>where\<close>, \<open>query\<close> and \<open>getDocs\<close> in this order, and the
  first of them that is not a function throws. Were all four functions, the store would be
  asked for the documents of the collection that satisfy the equality.
\<close>

definition getDocsWhere ::
  "db \<Rightarrow> (string \<times> 'a) list \<Rightarrow> (string \<times> 'a \<Rightarrow> bool) \<Rightarrow> thrown + (string \<times> 'a) list" where
  "getDocsWhere d coll p =
     (case missingImport [''collection'', ''where'', ''query'', ''getDocs''] of
        Some name \<Rightarrow> Inl (JsError (name @ '' is not a function''))
      | None \<Rightarrow>
          (case outage d of
             Some m \<Rightarrow> Inl (JsError m)
           | None \<Rightarrow> Inr (filter p coll)))"

definition bansWhereIp :: "db \<Rightarrow> string \<Rightarrow> thrown + (string \<times> IPBan) list" where
  "bansWhereIp d a = getDocsWhere d (ip_bans d) (\<lambda>(i, b). IPBan.ipAddress b = a)"

definition usagesWhereIp :: "db \<Rightarrow> string \<Rightarrow> thrown + (string \<times> UserIP) list" where
  "usagesWhereIp d a = getDocsWhere d (user_ips d) (\<lambda>(i, r). UserIP.ipAddress r = a)"

definition usagesWhereUser :: "db \<Rightarrow> string \<Rightarrow> thrown + (string \<times> UserIP) list" where
  "usagesWhereUser d u = getDocsWhere d (user_ips d) (\<lambda>(i, r). userId r = u)"

text \<open>
  The document operations \<open>ref.delete()\<close>, \<open>ref.update(...)\<close> and \<open>ref.set(...)\<close>
  are methods of the admin SDK's own objects. They address a document by its id;
  \<open>set\<close> replaces a document that has the id already.
\<close>

definition deleteDoc :: "string \<Rightarrow> (string \<times> 'a) list \<Rightarrow> (string \<times> 'a) list" where
  "deleteDoc docId coll = filter (\<lambda>(i, x). i \<noteq> docId) coll"

definition updateDoc :: "string \<Rightarrow> ('a \<Rightarrow> 'a) \<Rightarrow> (string \<times> 'a) list \<Rightarrow> (string \<times> 'a) list" where
  "updateDoc docId f coll = map (\<lambda>(i, x). if i = docId then (i, f x) else (i, x)) coll"

definition setDoc :: "string \<Rightarrow> 'a \<Rightarrow> (string \<times> 'a) list \<Rightarrow> (string \<times> 'a) list" where
  "setDoc docId x coll =
     (if docId \<in> fst ` set coll then updateDoc docId (\<lambda>_. x) coll else coll @ [(docId, x)])"

subsection \<open>The handlers\<close>

text \<open>\<open>now\<close> is the reading of \<open>new Date()\<close>.\<close>

definition handleCheckIPBan :: "int \<Rightarrow> db \<Rightarrow> string option \<Rightarrow> response \<times> db" where
  "handleCheckIPBan now d ip =
     (if falsyStr ip then (respond 400 (ErrorOnly ''IP address required''), d)
      else case bansWhereIp d (the ip) of
        Inl err \<Rightarrow> (respond 500 (ErrorOnly ''Failed to check IP ban''), d)
      | Inr docs \<Rightarrow>
          (case docs of
             [] \<Rightarrow> (respond 200 NotBanned, d)
           | (banId, banData) # _ \<Rightarrow>
               (case expiresAt banData of
                  Some expires \<Rightarrow>
                    if now > expires
                    then (respond 200 NotBanned, d\<lparr>ip_bans := deleteDoc banId (ip_bans d)\<rparr>)
                    else (respond 200 (IsBanned (reason banData) (Some expires)), d)
                | None \<Rightarrow> (respond 200 (IsBanned (reason banData) None), d))))"

definition handleCheckIPLimit :: "db \<Rightarrow> string option \<Rightarrow> int option \<Rightarrow> response \<times> db" where
  "handleCheckIPLimit d ip maxAccounts =
     (if falsyStr ip \<or> falsyNum maxAccounts
      then (respond 400 (ErrorOnly ''IP address and maxAccounts required''), d)
      else case usagesWhereIp d (the ip) of
        Inl err \<Rightarrow> (respond 500 (ErrorOnly ''Failed to check IP limit''), d)
      | Inr docs \<Rightarrow>
          (let accountCount = length docs;
               isLimitExceeded = (int accountCount \<ge> the maxAccounts)
           in (respond 200 (LimitInfo accountCount (the maxAccounts) isLimitExceeded), d)))"


text \<open>
  The loop of \<open>handleUpdateUserIPLogin\<close> over the documents of the user: the id of the
  first one whose \<open>ipAddress\<close> is the given one.
\<close>

fun findLogin :: "string \<Rightarrow> (string \<times> UserIP) list \<Rightarrow> string option" where
  "findLogin ip [] = None"
| "findLogin ip ((docId, r) # docs) =
     (if UserIP.ipAddress r = ip then Some docId else findLogin ip docs)"

text \<open>
  \<open>t1\<close> and \<open>t2\<close> are the first and the second reading of \<open>Timestamp.now()\<close>: the
  handler reads the clock once when it refreshes a document and twice when it creates one
  (which it does without an \<open>email\<close> field).
\<close>

definition handleUpdateUserIPLogin ::
  "int \<Rightarrow> int \<Rightarrow> string \<Rightarrow> db \<Rightarrow> string option \<Rightarrow> string option \<Rightarrow> response \<times> db" where
  "handleUpdateUserIPLogin t1 t2 newId d uid ip =
     (if falsyStr uid \<or> falsyStr ip
      then (respond 400 (ErrorOnly ''userId and ipAddress required''), d)
      else case usagesWhereUser d (the uid) of
        Inl err \<Rightarrow> (respond 500 (ErrorOnly ''Failed to update IP login''), d)
      | Inr docs \<Rightarrow>
          (case findLogin (the ip) docs of
             Some docId \<Rightarrow>
               (respond 200 SuccessOk,
                d\<lparr>user_ips := updateDoc docId (\<lambda>r. r\<lparr>lastUsed := t1\<rparr>) (user_ips d)\<rparr>)
           | None \<Rightarrow>
               (respond 200 SuccessOk,
                d\<lparr>user_ips := setDoc newId
                     \<lparr>userId = the uid, email = None, ipAddress = the ip,
                      recordedAt = t1, lastUsed = t2\<rparr> (user_ips d)\<rparr>)))"


section \<open>An example deployment\<close>

text \<open>
  Concrete collaborators and a concrete store, on which the handlers are run in the examples
  below. The identity provider knows six tokens. The services are test doubles: \<open>banUser\<close>
  and \<open>deleteUser\<close> throw \<open>User not found\<close> for a target without a user document
  (the message \<open>handleBanUser\<close> tests for), \<open>deleteUser\<close> removes the document, and the
  others return fixed identifiers.
\<close>

definition stubIdp :: "string \<Rightarrow> string + string" where
  "stubIdp tok =
     (if tok = ''alice.token'' then Inr ''alice-uid-01''
      else if tok = ''bob.token.1'' then Inr ''bob-uid-0002''
      else if tok = ''carol.token'' then Inr ''carol-uid-03''
      else if tok = ''dave.token.'' then Inr ''dave-uid-004''
      else if tok = ''erin.token.'' then Inr ''erin-uid-005''
      else if tok = ''frank.token'' then Inr ''frank-uid-06''
      else Inl ''Decoding Firebase ID token failed'')"

definition stubEnv :: env where
  "stubEnv =
     \<lparr>verifyIdToken = stubIdp,
      ipv4 = (\<lambda>s. s = ''1.2.3.4''),
      ipv6 = (\<lambda>s. s = ''::1''),
      banUser = (\<lambda>a u r n d.
         if users d u = None then (Inl (JsError ''User not found''), d) else (Inr ''ban-1'', d)),
      banIP = (\<lambda>a ip r n d. (Inr ''ban-2'', d)),
      deleteUser = (\<lambda>a u d.
         if users d u = None then (Inl (JsError ''User not found''), d)
         else (Inr (), d\<lparr>users := (users d)(u := None)\<rparr>)),
      createLicense = (\<lambda>a p n d. (Inr ''LICENSE-KEY-1'', d)),
      getAllUsers = (\<lambda>d. (Inr [''alice-uid-01'', ''bob-uid-0002'', ''carol-uid-03''], d))\<rparr>"

text \<open>
  Alice is an admin, Bob's flag is \<open>false\<close>, Carol's document has no flag, and Dave has
  a token but no document. Erin's flag is the string \<open>false\<close> and Frank's the number 1. There is an expired ban, a running ban and a permanent ban;
  three accounts were seen on 1.2.3.4 and two on 5.6.7.8.
\<close>

definition stubDb :: db where
  "stubDb =
     \<lparr>outage = None,
      users = [''alice-uid-01'' \<mapsto> \<lparr>isAdmin = Some (FBool True)\<rparr>,
               ''bob-uid-0002'' \<mapsto> \<lparr>isAdmin = Some (FBool False)\<rparr>,
               ''carol-uid-03'' \<mapsto> \<lparr>isAdmin = None\<rparr>,
               ''erin-uid-005'' \<mapsto> \<lparr>isAdmin = Some (FStr ''false'')\<rparr>,
               ''frank-uid-06'' \<mapsto> \<lparr>isAdmin = Some (FNum 1)\<rparr>],
      ip_bans =
        [(''ban-a'', \<lparr>IPBan.ipAddress = ''1.2.3.4'', reason = ''abuse of the API'',
                      bannedAt = 0, expiresAt = Some 999\<rparr>),
         (''ban-b'', \<lparr>IPBan.ipAddress = ''5.6.7.8'', reason = ''spam flood'',
                      bannedAt = 0, expiresAt = Some 4600\<rparr>),
         (''ban-c'', \<lparr>IPBan.ipAddress = ''10.0.0.1'', reason = ''botnet node'',
                      bannedAt = 0, expiresAt = None\<rparr>)],
      user_ips =
        [(''ip-1'', \<lparr>userId = ''alice-uid-01'', email = Some ''a@x.org'', ipAddress = ''1.2.3.4'',
                     recordedAt = 10, lastUsed = 10\<rparr>),
         (''ip-2'', \<lparr>userId = ''bob-uid-0002'', email = Some ''b@x.org'', ipAddress = ''1.2.3.4'',
                     recordedAt = 20, lastUsed = 25\<rparr>),
         (''ip-3'', \<lparr>userId = ''carol-uid-03'', email = Some [], ipAddress = ''1.2.3.4'',
                     recordedAt = 30, lastUsed = 30\<rparr>),
         (''ip-4'', \<lparr>userId = ''alice-uid-01'', email = None, ipAddress = ''5.6.7.8'',
                     recordedAt = 40, lastUsed = 41\<rparr>),
         (''ip-5'', \<lparr>userId = ''bob-uid-0002'', email = None, ipAddress = ''5.6.7.8'',
                     recordedAt = 50, lastUsed = 50\<rparr>)]\<rparr>"

section \<open>The privilege gate fails closed\<close>

text \<open>
  \<open>verifyAdmin\<close> lets a subject through exactly when the token is accepted, the store
  answers, and the user document exists with an \<open>isAdmin\<close> that JavaScript converts to
  \<open>true\<close>: any value but an absent field, null, \<open>false\<close>, 0 and the empty string.
\<close>

lemma truthy_iff:
  "truthy v \<longleftrightarrow> v \<notin> {None, Some FNull, Some (FBool False), Some (FNum 0), Some (FStr [])}"
proof (cases v)
  case None
  then show ?thesis by (simp add: truthy_def)
next
  case (Some x)
  then show ?thesis by (cases x) (simp_all add: truthy_def)
qed

lemma verifyAdmin_Inr_iff:
  "fst (verifyAdmin e d tok) = Inr a \<longleftrightarrow>
     verifyIdToken e tok = Inr a \<and> outage d = None \<and> truthyFlag (users d a)"
  by (auto simp: verifyAdmin_def getUser_def truthyFlag_def split: sum.splits option.splits)

lemma verifyAdmin_NotAdmin:
  "verifyIdToken e tok = Inr uid \<Longrightarrow> outage d = None \<Longrightarrow> \<not> truthyFlag (users d uid) \<Longrightarrow>
     fst (verifyAdmin e d tok) = Inl NotAdmin"
  by (simp add: verifyAdmin_def getUser_def)

lemma truthyFlag_iff:
  "truthyFlag doc \<longleftrightarrow>
     (\<exists>u. doc = Some u
        \<and> isAdmin u \<notin> {None, Some FNull, Some (FBool False), Some (FNum 0), Some (FStr [])})"
  by (cases doc) (simp_all add: truthyFlag_def truthy_iff)

text \<open>
  C1, as the code has it. \<open>verifyAdmin\<close> returns an identifier only if the identity
  provider yields that identifier for the token, the store answers, and the user document
  of that identifier exists with a truthy \<open>isAdmin\<close>. For a token the provider accepts,
  on a store that answers: it fails with \<open>NotAdmin\<close> whenever the subject's document is
  missing or its \<open>isAdmin\<close> is absent, null, \<open>false\<close>, 0 or the empty string, and it
  returns the subject's identifier whenever the document exists with any other
  \<open>isAdmin\<close>.
\<close>

theorem verifyAdmin_truthy_gate:
  "(fst (verifyAdmin e d tok) = Inr a \<longrightarrow>
      verifyIdToken e tok = Inr a \<and> outage d = None
      \<and> (\<exists>u. users d a = Some u
            \<and> isAdmin u \<notin> {None, Some FNull, Some (FBool False), Some (FNum 0), Some (FStr [])}))
   \<and> (verifyIdToken e tok = Inr uid \<and> outage d = None
        \<and> (users d uid = None
             \<or> (\<exists>u. users d uid = Some u
                   \<and> isAdmin u \<in> {None, Some FNull, Some (FBool False), Some (FNum 0), Some (FStr [])}))
      \<longrightarrow> fst (verifyAdmin e d tok) = Inl NotAdmin)
   \<and> (verifyIdToken e tok = Inr uid \<and> outage d = None
        \<and> (\<exists>u. users d uid = Some u
              \<and> isAdmin u \<notin> {None, Some FNull, Some (FBool False), Some (FNum 0), Some (FStr [])})
      \<longrightarrow> fst (verifyAdmin e d tok) = Inr uid)"
proof -
  have one: "fst (verifyAdmin e d tok) = Inr a \<longrightarrow>
      verifyIdToken e tok = Inr a \<and> outage d = None
      \<and> (\<exists>u. users d a = Some u
            \<and> isAdmin u \<notin> {None, Some FNull, Some (FBool False), Some (FNum 0), Some (FStr [])})"
    unfolding verifyAdmin_Inr_iff truthyFlag_iff by blast
  have two: "verifyIdToken e tok = Inr uid \<and> outage d = None
        \<and> (users d uid = None
             \<or> (\<exists>u. users d uid = Some u
                   \<and> isAdmin u \<in> {None, Some FNull, Some (FBool False), Some (FNum 0), Some (FStr [])}))
      \<longrightarrow> fst (verifyAdmin e d tok) = Inl NotAdmin"
  proof
    assume *: "verifyIdToken e tok = Inr uid \<and> outage d = None
        \<and> (users d uid = None
             \<or> (\<exists>u. users d uid = Some u
                   \<and> isAdmin u \<in> {None, Some FNull, Some (FBool False), Some (FNum 0), Some (FStr [])}))"
    then have "\<not> truthyFlag (users d uid)"
      unfolding truthyFlag_iff by (metis option.distinct(1) option.inject)
    with * show "fst (verifyAdmin e d tok) = Inl NotAdmin"
      by (simp add: verifyAdmin_NotAdmin)
  qed
  have three: "verifyIdToken e tok = Inr uid \<and> outage d = None
        \<and> (\<exists>u. users d uid = Some u
              \<and> isAdmin u \<notin> {None, Some FNull, Some (FBool False), Some (FNum 0), Some (FStr [])})
      \<longrightarrow> fst (verifyAdmin e d tok) = Inr uid"
    unfolding verifyAdmin_Inr_iff truthyFlag_iff by blast
  from one two three show ?thesis by blast
qed

lemma stub_idp:
  "verifyIdToken stubEnv ''alice.token'' = Inr ''alice-uid-01''"
  "verifyIdToken stubEnv ''bob.token.1'' = Inr ''bob-uid-0002''"
  "verifyIdToken stubEnv ''carol.token'' = Inr ''carol-uid-03''"
  "verifyIdToken stubEnv ''dave.token.'' = Inr ''dave-uid-004''"
  "verifyIdToken stubEnv ''erin.token.'' = Inr ''erin-uid-005''"
  "verifyIdToken stubEnv ''frank.token'' = Inr ''frank-uid-06''"
  by (simp_all add: stubEnv_def stubIdp_def)

lemma stub_users:
  "outage stubDb = None"
  "users stubDb ''alice-uid-01'' = Some \<lparr>isAdmin = Some (FBool True)\<rparr>"
  "users stubDb ''bob-uid-0002'' = Some \<lparr>isAdmin = Some (FBool False)\<rparr>"
  "users stubDb ''carol-uid-03'' = Some \<lparr>isAdmin = None\<rparr>"
  "users stubDb ''dave-uid-004'' = None"
  "users stubDb ''erin-uid-005'' = Some \<lparr>isAdmin = Some (FStr ''false'')\<rparr>"
  "users stubDb ''frank-uid-06'' = Some \<lparr>isAdmin = Some (FNum 1)\<rparr>"
  by (simp_all add: stubDb_def)

theorem verifyAdmin_truthy_gate_witness:
  "fst (verifyAdmin stubEnv stubDb ''alice.token'') = Inr ''alice-uid-01''
   \<and> (\<exists>u. users stubDb ''alice-uid-01'' = Some u \<and> isAdmin u \<noteq> Some (FBool False))
   \<and> fst (verifyAdmin stubEnv stubDb ''bob.token.1'') = Inl NotAdmin
   \<and> fst (verifyAdmin stubEnv stubDb ''carol.token'') = Inl NotAdmin
   \<and> fst (verifyAdmin stubEnv stubDb ''dave.token.'') = Inl NotAdmin"
proof -
  have t: "Some (FBool True)
      \<notin> {None, Some FNull, Some (FBool False), Some (FNum 0), Some (FStr [])}"
    by simp
  have f: "Some (FBool False)
      \<in> {None, Some FNull, Some (FBool False), Some (FNum 0), Some (FStr [])}"
    "(None :: fieldValue option)
      \<in> {None, Some FNull, Some (FBool False), Some (FNum 0), Some (FStr [])}"
    by simp_all
  have alice: "fst (verifyAdmin stubEnv stubDb ''alice.token'') = Inr ''alice-uid-01''"
    using verifyAdmin_truthy_gate [of stubEnv stubDb "''alice.token''" "''alice-uid-01''"
        "''alice-uid-01''"] stub_idp(1) stub_users(1,2) t
    by (metis user.select_convs(1))
  have flag: "\<exists>u. users stubDb ''alice-uid-01'' = Some u \<and> isAdmin u \<noteq> Some (FBool False)"
    using verifyAdmin_truthy_gate [of stubEnv stubDb "''alice.token''" "''alice-uid-01''"
        "''alice-uid-01''"] alice f(1)
    by metis
  have bob: "fst (verifyAdmin stubEnv stubDb ''bob.token.1'') = Inl NotAdmin"
    using verifyAdmin_truthy_gate [of stubEnv stubDb "''bob.token.1''" "''bob-uid-0002''"
        "''bob-uid-0002''"] stub_idp(2) stub_users(1,3) f(1)
    by (metis user.select_convs(1))
  have carol: "fst (verifyAdmin stubEnv stubDb ''carol.token'') = Inl NotAdmin"
    using verifyAdmin_truthy_gate [of stubEnv stubDb "''carol.token''" "''carol-uid-03''"
        "''carol-uid-03''"] stub_idp(3) stub_users(1,4) f(2)
    by (metis user.select_convs(1))
  have dave: "fst (verifyAdmin stubEnv stubDb ''dave.token.'') = Inl NotAdmin"
    using verifyAdmin_truthy_gate [of stubEnv stubDb "''dave.token.''" "''dave-uid-004''"
        "''dave-uid-004''"] stub_idp(4) stub_users(1,5)
    by metis
  from alice flag bob carol dave show ?thesis by blast
qed

text \<open>
  A flag that is not \<open>true\<close> can open the gate: Erin's is the string \<open>false\<close>,
  Frank's the number 1, and both are returned as admins.
\<close>

theorem verifyAdmin_admits_truthy_flag:
  "users stubDb ''erin-uid-005'' = Some \<lparr>isAdmin = Some (FStr ''false'')\<rparr>
   \<and> fst (verifyAdmin stubEnv stubDb ''erin.token.'') = Inr ''erin-uid-005''
   \<and> users stubDb ''frank-uid-06'' = Some \<lparr>isAdmin = Some (FNum 1)\<rparr>
   \<and> fst (verifyAdmin stubEnv stubDb ''frank.token'') = Inr ''frank-uid-06''"
  by (simp add: stub_users stub_idp verifyAdmin_def getUser_def truthyFlag_def truthy_def)

section \<open>Identity comes from the token alone\<close>

text \<open>
  What the schemas hand on as the token is the \<open>idToken\<close> field itself, accepted exactly
  when it has 10 to 3000 characters, all of the token character class.
\<close>

lemma idTokenField_Inr_iff:
  "idTokenField b = Inr tok \<longleftrightarrow>
     b ''idToken'' = Some (JStr tok) \<and> 10 \<le> length tok \<and> length tok \<le> 3000 \<and> tokenFormat tok"
  by (auto simp: idTokenField_def zString_def split: option.splits json.splits if_splits)

lemma VerifyAdminSchema_Inr:
  "VerifyAdminSchema b = Inr tok \<Longrightarrow> idTokenField b = Inr tok"
  by (auto simp: VerifyAdminSchema_def split: sum.splits)

lemma BanUserSchema_Inr:
  "BanUserSchema b = Inr (tok, u, r, n) \<Longrightarrow> idTokenField b = Inr tok"
  by (auto simp: BanUserSchema_def Let_def split: sum.splits)

lemma BanIPSchema_Inr:
  "BanIPSchema e b = Inr (tok, u, r, n) \<Longrightarrow> idTokenField b = Inr tok"
  by (auto simp: BanIPSchema_def Let_def split: sum.splits)

lemma DeleteUserSchema_Inr:
  "DeleteUserSchema b = Inr (tok, u) \<Longrightarrow> idTokenField b = Inr tok"
  by (auto simp: DeleteUserSchema_def Let_def split: sum.splits)

lemma CreateLicenseSchema_Inr:
  "CreateLicenseSchema b = Inr (tok, p, n) \<Longrightarrow> idTokenField b = Inr tok"
  by (auto simp: CreateLicenseSchema_def Let_def split: sum.splits)

lemma verifyAdmin_Inr:
  "verifyAdmin e d tok = (Inr a, cs) \<Longrightarrow>
     verifyIdToken e tok = Inr a \<and> cs = [IdpVerify tok, StoreGetUser a]"
  by (auto simp: verifyAdmin_def split: sum.splits if_splits)

lemma verifyAdmin_calls:
  "verifyAdmin e d tok = (r, cs) \<Longrightarrow> adminOf c = Some a \<Longrightarrow> c \<notin> set cs"
  by (auto simp: verifyAdmin_def adminOf_def split: sum.splits if_splits)

lemma handleBanUser_admin:
  assumes "c \<in> set (calls (handleBanUser e d b))" "adminOf c = Some a"
  shows "\<exists>tok. idTokenField b = Inr tok \<and> fst (verifyAdmin e d tok) = Inr a"
  using assms
  by (auto simp: handleBanUser_def adminOf_def split: sum.splits prod.splits call.splits
      dest!: BanUserSchema_Inr dest: verifyAdmin_calls)

lemma handleBanIP_admin:
  assumes "c \<in> set (calls (handleBanIP e d b))" "adminOf c = Some a"
  shows "\<exists>tok. idTokenField b = Inr tok \<and> fst (verifyAdmin e d tok) = Inr a"
  using assms
  by (auto simp: handleBanIP_def adminOf_def split: sum.splits prod.splits call.splits
      dest!: BanIPSchema_Inr dest: verifyAdmin_calls)

lemma handleDeleteUser_admin:
  assumes "c \<in> set (calls (handleDeleteUser e d b))" "adminOf c = Some a"
  shows "\<exists>tok. idTokenField b = Inr tok \<and> fst (verifyAdmin e d tok) = Inr a"
  using assms
  by (auto simp: handleDeleteUser_def adminOf_def split: sum.splits prod.splits call.splits
      dest!: DeleteUserSchema_Inr dest: verifyAdmin_calls)

lemma handleCreateLicense_admin:
  assumes "c \<in> set (calls (handleCreateLicense e d b))" "adminOf c = Some a"
  shows "\<exists>tok. idTokenField b = Inr tok \<and> fst (verifyAdmin e d tok) = Inr a"
  using assms
  by (auto simp: handleCreateLicense_def adminOf_def split: sum.splits prod.splits call.splits
      dest!: CreateLicenseSchema_Inr dest: verifyAdmin_calls)


lemma moderation_admin:
  assumes "h \<in> {handleBanUser, handleBanIP, handleDeleteUser, handleCreateLicense}"
    and "c \<in> set (calls (h e d b))" and "adminOf c = Some a"
  shows "\<exists>tok. idTokenField b = Inr tok \<and> fst (verifyAdmin e d tok) = Inr a"
proof -
  from assms(1) consider "h = handleBanUser" | "h = handleBanIP" | "h = handleDeleteUser"
    | "h = handleCreateLicense" by blast
  then show ?thesis
  proof cases
    case 1
    with assms(2,3) show ?thesis by (simp add: handleBanUser_admin)
  next
    case 2
    with assms(2,3) show ?thesis by (simp add: handleBanIP_admin)
  next
    case 3
    with assms(2,3) show ?thesis by (simp add: handleDeleteUser_admin)
  next
    case 4
    with assms(2,3) show ?thesis by (simp add: handleCreateLicense_admin)
  qed
qed

lemma verifyAdmin_uid:
  "fst (verifyAdmin e d tok) = Inr a \<Longrightarrow> verifyIdToken e tok = Inr a"
  by (cases "verifyAdmin e d tok") (auto dest: verifyAdmin_Inr)

text \<open>
  C2. In the four moderation handlers (ban user, ban IP, delete user, create license), the
  admin identifier passed to the moderation service is the identifier that token
  verification returned for the body's \<open>idToken\<close>. Hence two requests with the same
  \<open>idToken\<close> are attributed to the same admin, whatever their other body fields, the
  endpoint and the state of the store.
\<close>

theorem admin_identity_from_token:
  assumes "h \<in> {handleBanUser, handleBanIP, handleDeleteUser, handleCreateLicense}"
    and "h' \<in> {handleBanUser, handleBanIP, handleDeleteUser, handleCreateLicense}"
  shows "(c \<in> set (calls (h e d b)) \<and> adminOf c = Some a \<longrightarrow>
            (\<exists>tok. b ''idToken'' = Some (JStr tok) \<and> fst (verifyAdmin e d tok) = Inr a
               \<and> verifyIdToken e tok = Inr a))
       \<and> (b ''idToken'' = b' ''idToken''
            \<and> c \<in> set (calls (h e d b)) \<and> adminOf c = Some a
            \<and> c' \<in> set (calls (h' e d' b')) \<and> adminOf c' = Some a'
          \<longrightarrow> a = a')"
proof (intro conjI impI)
  assume "c \<in> set (calls (h e d b)) \<and> adminOf c = Some a"
  with assms(1) obtain tok where "idTokenField b = Inr tok" "fst (verifyAdmin e d tok) = Inr a"
    using moderation_admin by blast
  then show "\<exists>tok. b ''idToken'' = Some (JStr tok) \<and> fst (verifyAdmin e d tok) = Inr a
      \<and> verifyIdToken e tok = Inr a"
    by (auto simp: idTokenField_Inr_iff dest: verifyAdmin_uid)
next
  assume *: "b ''idToken'' = b' ''idToken''
      \<and> c \<in> set (calls (h e d b)) \<and> adminOf c = Some a
      \<and> c' \<in> set (calls (h' e d' b')) \<and> adminOf c' = Some a'"
  with assms(1) obtain tok where 1: "idTokenField b = Inr tok" "fst (verifyAdmin e d tok) = Inr a"
    using moderation_admin by blast
  from * assms(2) obtain tok' where 2: "idTokenField b' = Inr tok'"
    "fst (verifyAdmin e d' tok') = Inr a'"
    using moderation_admin by blast
  from 1 2 * have "tok = tok'" by (simp add: idTokenField_Inr_iff)
  with 1 2 show "a = a'" by (auto dest!: verifyAdmin_uid)
qed

theorem admin_identity_from_token_witness:
  "SvcBanUser ''alice-uid-01'' ''bob-uid-0002'' ''spamming'' 7
     \<in> set (calls (handleBanUser stubEnv stubDb
          [''idToken'' \<mapsto> JStr ''alice.token'', ''userId'' \<mapsto> JStr ''bob-uid-0002'',
           ''reason'' \<mapsto> JStr ''spamming'', ''duration'' \<mapsto> JNum 7]))
   \<and> SvcDeleteUser ''alice-uid-01'' ''carol-uid-03''
     \<in> set (calls (handleDeleteUser stubEnv stubDb
          [''idToken'' \<mapsto> JStr ''alice.token'', ''userId'' \<mapsto> JStr ''carol-uid-03'',
           ''adminUid'' \<mapsto> JStr ''bob-uid-0002'']))
   \<and> (\<exists>tok. verifyIdToken stubEnv tok = Inr ''alice-uid-01'')"
proof -
  let ?b = "[''idToken'' \<mapsto> JStr ''alice.token'', ''userId'' \<mapsto> JStr ''bob-uid-0002'',
           ''reason'' \<mapsto> JStr ''spamming'', ''duration'' \<mapsto> JNum 7]"
  let ?b' = "[''idToken'' \<mapsto> JStr ''alice.token'', ''userId'' \<mapsto> JStr ''carol-uid-03'',
           ''adminUid'' \<mapsto> JStr ''bob-uid-0002'']"
  have s: "BanUserSchema ?b = Inr (''alice.token'', ''bob-uid-0002'', ''spamming'', 7)"
    by (simp add: BanUserSchema_def idTokenField_def zString_def zInt_def tokenFormat_def
        tokenChar_def trim_def isWhiteSpace_def)
  have s': "DeleteUserSchema ?b' = Inr (''alice.token'', ''carol-uid-03'')"
    by (simp add: DeleteUserSchema_def idTokenField_def zString_def tokenFormat_def
        tokenChar_def)
  have v: "verifyAdmin stubEnv stubDb ''alice.token''
      = (Inr ''alice-uid-01'', [IdpVerify ''alice.token'', StoreGetUser ''alice-uid-01''])"
    by (simp add: verifyAdmin_def getUser_def truthyFlag_def truthy_def stubEnv_def stubDb_def stubIdp_def)
  have 1: "SvcBanUser ''alice-uid-01'' ''bob-uid-0002'' ''spamming'' 7
     \<in> set (calls (handleBanUser stubEnv stubDb ?b))"
    by (simp add: handleBanUser_def s v) (simp add: stubEnv_def stubDb_def)
  have 2: "SvcDeleteUser ''alice-uid-01'' ''carol-uid-03''
     \<in> set (calls (handleDeleteUser stubEnv stubDb ?b'))"
    by (simp add: handleDeleteUser_def s' v) (simp add: stubEnv_def stubDb_def)
  have "adminOf (SvcBanUser ''alice-uid-01'' ''bob-uid-0002'' ''spamming'' 7) = Some ''alice-uid-01''"
    by (simp add: adminOf_def)
  with 1 admin_identity_from_token [of handleBanUser handleDeleteUser
      "SvcBanUser ''alice-uid-01'' ''bob-uid-0002'' ''spamming'' 7" stubEnv stubDb ?b "''alice-uid-01''"]
  have "\<exists>tok. verifyIdToken stubEnv tok = Inr ''alice-uid-01''" by blast
  with 1 2 show ?thesis by blast
qed

section \<open>What an unauthorized caller is told\<close>

text \<open>
  A handler that got as far as the identity provider with token \<open>tok\<close>, and whose
  \<open>verifyAdmin\<close> threw an \<open>Error\<close>, answers with its fixed \<open>error\<close> label and that
  error's own message.
\<close>

lemma verifyAdmin_idp_call:
  "verifyAdmin e d t = (r, cs) \<Longrightarrow> IdpVerify tok \<in> set cs \<Longrightarrow> t = tok"
  by (auto simp: verifyAdmin_def split: sum.splits if_splits)

lemma verifyAdmin_token_invalid:
  "verifyIdToken e tok = Inl m \<Longrightarrow> verifyAdmin e d tok = (Inl (JsError m), [IdpVerify tok])"
  by (simp add: verifyAdmin_def)

lemma handleVerifyAdmin_unauth:
  assumes "IdpVerify tok \<in> set (calls (handleVerifyAdmin e d b))"
    and "fst (verifyAdmin e d tok) = Inl (JsError m)"
  shows "payload (sent (handleVerifyAdmin e d b)) = Failure ''Unauthorized'' (Text m)"
proof (cases "VerifyAdminSchema b")
  case (Inl err)
  with assms(1) show ?thesis by (simp add: handleVerifyAdmin_def)
next
  case (Inr t)
  obtain r cs where va: "verifyAdmin e d t = (r, cs)" by (cases "verifyAdmin e d t") auto
  with Inr assms(1) have "IdpVerify tok \<in> set cs"
    by (auto simp: handleVerifyAdmin_def split: sum.splits)
  with va have "t = tok" by (rule verifyAdmin_idp_call)
  with Inr va assms(2) show ?thesis
    by (simp add: handleVerifyAdmin_def messageOf_def respond_def)
qed

lemma handleBanUser_unauth:
  assumes "IdpVerify tok \<in> set (calls (handleBanUser e d b))"
    and "fst (verifyAdmin e d tok) = Inl (JsError m)"
  shows "payload (sent (handleBanUser e d b)) = Failure ''Failed to ban user'' (Text m)"
  using assms
  by (auto simp: handleBanUser_def messageOf_def respond_def
      split: prod.splits sum.splits dest: verifyAdmin_idp_call)

lemma handleBanIP_unauth:
  assumes "IdpVerify tok \<in> set (calls (handleBanIP e d b))"
    and "fst (verifyAdmin e d tok) = Inl (JsError m)"
  shows "payload (sent (handleBanIP e d b)) = Failure ''Failed to ban IP'' (Text m)"
  using assms
  by (auto simp: handleBanIP_def messageOf_def respond_def
      split: prod.splits sum.splits dest: verifyAdmin_idp_call)

lemma handleDeleteUser_unauth:
  assumes "IdpVerify tok \<in> set (calls (handleDeleteUser e d b))"
    and "fst (verifyAdmin e d tok) = Inl (JsError m)"
  shows "payload (sent (handleDeleteUser e d b)) = Failure ''Failed to delete user'' (Text m)"
  using assms
  by (auto simp: handleDeleteUser_def messageOf_def respond_def
      split: prod.splits sum.splits dest: verifyAdmin_idp_call)

lemma handleCreateLicense_unauth:
  assumes "IdpVerify tok \<in> set (calls (handleCreateLicense e d b))"
    and "fst (verifyAdmin e d tok) = Inl (JsError m)"
  shows "payload (sent (handleCreateLicense e d b)) = Failure ''Failed to create license'' (Text m)"
  using assms
  by (auto simp: handleCreateLicense_def messageOf_def respond_def
      split: prod.splits sum.splits dest: verifyAdmin_idp_call)

lemma handleGetAllUsers_unauth:
  assumes "IdpVerify tok \<in> set (calls (handleGetAllUsers e d hdr))"
    and "fst (verifyAdmin e d tok) = Inl (JsError m)"
  shows "payload (sent (handleGetAllUsers e d hdr)) = Failure ''Unauthorized'' (Text m)"
  using assms
  by (auto simp: handleGetAllUsers_def messageOf_def respond_def Let_def
      split: prod.splits sum.splits option.splits if_splits dest: verifyAdmin_idp_call)

text \<open>
  C3, as the code has it. When a privileged request fails authentication or authorization,
  the response body carries the endpoint's fixed \<open>error\<close> label in both cases, and as
  \<open>message\<close> the message of the error that was thrown: the identity provider's
  message for a token it rejects, and \<open>Unauthorized: Not an admin\<close> for a subject that is
  no admin.
\<close>

theorem unauthorized_message:
  assumes "(h, label) \<in> {(handleVerifyAdmin, ''Unauthorized''),
             (handleBanUser, ''Failed to ban user''), (handleBanIP, ''Failed to ban IP''),
             (handleDeleteUser, ''Failed to delete user''),
             (handleCreateLicense, ''Failed to create license'')}"
    and "IdpVerify tok \<in> set (calls (h e d b))"
  shows "(verifyIdToken e tok = Inl m \<longrightarrow>
            payload (sent (h e d b)) = Failure label (Text m))
       \<and> (fst (verifyAdmin e d tok) = Inl NotAdmin \<longrightarrow>
            payload (sent (h e d b)) = Failure label (Text ''Unauthorized: Not an admin''))
       \<and> (IdpVerify t \<in> set (calls (handleGetAllUsers e d hdr)) \<longrightarrow>
            (verifyIdToken e t = Inl m \<longrightarrow>
               payload (sent (handleGetAllUsers e d hdr)) = Failure ''Unauthorized'' (Text m))
          \<and> (fst (verifyAdmin e d t) = Inl NotAdmin \<longrightarrow>
               payload (sent (handleGetAllUsers e d hdr))
                 = Failure ''Unauthorized'' (Text ''Unauthorized: Not an admin'')))"
proof -
  have *: "payload (sent (h e d b)) = Failure label (Text x)"
    if "fst (verifyAdmin e d tok) = Inl (JsError x)" for x
    using assms that
    by (auto simp: handleVerifyAdmin_unauth handleBanUser_unauth handleBanIP_unauth
        handleDeleteUser_unauth handleCreateLicense_unauth)
  have one: "verifyIdToken e tok = Inl m \<longrightarrow> payload (sent (h e d b)) = Failure label (Text m)"
    using * [of m] by (simp add: verifyAdmin_token_invalid)
  have two: "fst (verifyAdmin e d tok) = Inl NotAdmin \<longrightarrow>
      payload (sent (h e d b)) = Failure label (Text ''Unauthorized: Not an admin'')"
    using * [of "''Unauthorized: Not an admin''"] by (simp add: NotAdmin_def)
  have three: "IdpVerify t \<in> set (calls (handleGetAllUsers e d hdr)) \<longrightarrow>
            (verifyIdToken e t = Inl m \<longrightarrow>
               payload (sent (handleGetAllUsers e d hdr)) = Failure ''Unauthorized'' (Text m))
          \<and> (fst (verifyAdmin e d t) = Inl NotAdmin \<longrightarrow>
               payload (sent (handleGetAllUsers e d hdr))
                 = Failure ''Unauthorized'' (Text ''Unauthorized: Not an admin''))"
    by (simp add: handleGetAllUsers_unauth NotAdmin_def verifyAdmin_token_invalid)
  from one two three show ?thesis by blast
qed

lemma stub_token_checks:
  "idTokenField [''idToken'' \<mapsto> JStr ''forged.token''] = Inr ''forged.token''"
  "idTokenField [''idToken'' \<mapsto> JStr ''bob.token.1''] = Inr ''bob.token.1''"
  by (simp_all add: idTokenField_def zString_def tokenFormat_def tokenChar_def)

lemma stub_verifyAdmin:
  "verifyAdmin stubEnv stubDb ''forged.token''
     = (Inl (JsError ''Decoding Firebase ID token failed''), [IdpVerify ''forged.token''])"
  "verifyAdmin stubEnv stubDb ''bob.token.1''
     = (Inl NotAdmin, [IdpVerify ''bob.token.1'', StoreGetUser ''bob-uid-0002''])"
  by (simp_all add: verifyAdmin_def getUser_def truthyFlag_def truthy_def stubEnv_def stubDb_def stubIdp_def)

theorem unauthorized_message_witness:
  "payload (sent (handleVerifyAdmin stubEnv stubDb [''idToken'' \<mapsto> JStr ''forged.token'']))
     = Failure ''Unauthorized'' (Text ''Decoding Firebase ID token failed'')
   \<and> payload (sent (handleVerifyAdmin stubEnv stubDb [''idToken'' \<mapsto> JStr ''bob.token.1'']))
     = Failure ''Unauthorized'' (Text ''Unauthorized: Not an admin'')"
proof -
  let ?f = "[''idToken'' \<mapsto> JStr ''forged.token'']"
  let ?n = "[''idToken'' \<mapsto> JStr ''bob.token.1'']"
  have mem: "(handleVerifyAdmin, ''Unauthorized'') \<in> {(handleVerifyAdmin, ''Unauthorized''),
             (handleBanUser, ''Failed to ban user''), (handleBanIP, ''Failed to ban IP''),
             (handleDeleteUser, ''Failed to delete user''),
             (handleCreateLicense, ''Failed to create license'')}" by simp
  have c1: "IdpVerify ''forged.token'' \<in> set (calls (handleVerifyAdmin stubEnv stubDb ?f))"
    by (simp add: handleVerifyAdmin_def VerifyAdminSchema_def stub_token_checks stub_verifyAdmin)
  have c2: "IdpVerify ''bob.token.1'' \<in> set (calls (handleVerifyAdmin stubEnv stubDb ?n))"
    by (simp add: handleVerifyAdmin_def VerifyAdminSchema_def stub_token_checks stub_verifyAdmin)
  have i1: "verifyIdToken stubEnv ''forged.token'' = Inl ''Decoding Firebase ID token failed''"
    by (simp add: stubEnv_def stubIdp_def)
  have i2: "fst (verifyAdmin stubEnv stubDb ''bob.token.1'') = Inl NotAdmin"
    by (simp add: stub_verifyAdmin)
  from unauthorized_message [OF mem c1, of "''Decoding Firebase ID token failed''"] i1
  have 1: "payload (sent (handleVerifyAdmin stubEnv stubDb ?f))
     = Failure ''Unauthorized'' (Text ''Decoding Firebase ID token failed'')" by blast
  from unauthorized_message [OF mem c2] i2
  have 2: "payload (sent (handleVerifyAdmin stubEnv stubDb ?n))
     = Failure ''Unauthorized'' (Text ''Unauthorized: Not an admin'')" by blast
  from 1 2 show ?thesis by simp
qed

text \<open>
  The two failures are told apart by the body: a forged token and Bob's valid token
  (Bob is no admin) get different messages from \<open>handleVerifyAdmin\<close>.
\<close>

theorem unauthorized_bodies_differ:
  "fst (verifyAdmin stubEnv stubDb ''forged.token'')
     = Inl (JsError ''Decoding Firebase ID token failed'')
   \<and> fst (verifyAdmin stubEnv stubDb ''bob.token.1'') = Inl NotAdmin
   \<and> sent (handleVerifyAdmin stubEnv stubDb [''idToken'' \<mapsto> JStr ''forged.token''])
     = respond 401 (Failure ''Unauthorized'' (Text ''Decoding Firebase ID token failed''))
   \<and> sent (handleVerifyAdmin stubEnv stubDb [''idToken'' \<mapsto> JStr ''bob.token.1''])
     = respond 401 (Failure ''Unauthorized'' (Text ''Unauthorized: Not an admin''))
   \<and> payload (sent (handleVerifyAdmin stubEnv stubDb [''idToken'' \<mapsto> JStr ''forged.token'']))
     \<noteq> payload (sent (handleVerifyAdmin stubEnv stubDb [''idToken'' \<mapsto> JStr ''bob.token.1'']))"
  by (simp add: handleVerifyAdmin_def VerifyAdminSchema_def stub_token_checks stub_verifyAdmin
      isZodError_def messageOf_def NotAdmin_def respond_def)

section \<open>Validation before any outside call\<close>

text \<open>
  The five handlers that parse the body with a zod schema throw before they reach
  \<open>verifyAdmin\<close> when the \<open>idToken\<close> field is rejected: they make no call, leave the
  store alone and answer 400.
\<close>

lemma rejected_token_no_calls:
  assumes "idTokenField b = Inl errs"
  shows "calls (handleVerifyAdmin e d b) = [] \<and> store (handleVerifyAdmin e d b) = d
         \<and> status (sent (handleVerifyAdmin e d b)) = 400"
    and "calls (handleBanUser e d b) = [] \<and> store (handleBanUser e d b) = d
         \<and> status (sent (handleBanUser e d b)) = 400"
    and "calls (handleBanIP e d b) = [] \<and> store (handleBanIP e d b) = d
         \<and> status (sent (handleBanIP e d b)) = 400"
    and "calls (handleDeleteUser e d b) = [] \<and> store (handleDeleteUser e d b) = d
         \<and> status (sent (handleDeleteUser e d b)) = 400"
    and "calls (handleCreateLicense e d b) = [] \<and> store (handleCreateLicense e d b) = d
         \<and> status (sent (handleCreateLicense e d b)) = 400"
  using assms
  by (simp_all add: handleVerifyAdmin_def VerifyAdminSchema_def handleBanUser_def BanUserSchema_def
      handleBanIP_def BanIPSchema_def handleDeleteUser_def DeleteUserSchema_def
      handleCreateLicense_def CreateLicenseSchema_def isZodError_def respond_def Let_def
      split: sum.splits)

lemma idTokenField_rejects:
  "\<not> (\<exists>tok. b ''idToken'' = Some (JStr tok) \<and> 10 \<le> length tok \<and> length tok \<le> 3000
        \<and> tokenFormat tok) \<Longrightarrow> \<exists>errs. idTokenField b = Inl errs"
  by (cases "idTokenField b") (auto simp: idTokenField_Inr_iff)

text \<open>
  \<open>handleGetAllUsers\<close> checks the length of the trimmed bearer token by hand, and
  nothing else.
\<close>

lemma getAllUsers_length_checked:
  "length (trim (drop 7 hdr)) < 10 \<or> length (trim (drop 7 hdr)) > 3000 \<Longrightarrow>
     calls (handleGetAllUsers e d (Some hdr)) = []"
  by (auto simp: handleGetAllUsers_def Let_def)

text \<open>
  C4 at \<open>handleGetAllUsers\<close>: the bearer token \<open>abcde!fghij\<close> has a character
  outside the token class, and the handler hands it to the identity provider all the same,
  whatever the provider and the store are.
\<close>

theorem getAllUsers_skips_charset:
  "\<not> tokenFormat ''abcde!fghij''
   \<and> hd (calls (handleGetAllUsers e d (Some ''Bearer abcde!fghij''))) = IdpVerify ''abcde!fghij''
   \<and> calls (handleGetAllUsers e d (Some ''Bearer abcde!fghij'')) \<noteq> []"
proof -
  have t: "trim ''abcde!fghij'' = ''abcde!fghij''"
    by (simp add: trim_def isWhiteSpace_def)
  have f: "\<not> tokenFormat ''abcde!fghij''"
    by (simp add: tokenFormat_def tokenChar_def)
  obtain r cs where v: "verifyAdmin e d ''abcde!fghij'' = (r, IdpVerify ''abcde!fghij'' # cs)"
    by (cases "verifyAdmin e d ''abcde!fghij''")
      (auto simp: verifyAdmin_def split: sum.splits if_splits)
  have "calls (handleGetAllUsers e d (Some ''Bearer abcde!fghij''))
      = IdpVerify ''abcde!fghij'' # tl (calls (handleGetAllUsers e d (Some ''Bearer abcde!fghij'')))"
    by (simp add: handleGetAllUsers_def startsWith_def t v Let_def split: sum.splits prod.splits)
  with f show ?thesis by (metis list.sel(1) list.distinct(1))
qed

section \<open>The reason field\<close>

text \<open>
  \<open>z.string().min(5).max(500).trim()\<close>: the bounds are tested on the string as sent,
  and the value handed on is its trimmed form.
\<close>

lemma reasonField:
  "zString [MinLen 5, MaxLen 500, Trim] (Some (JStr s))
     = (if length s < 5 then Inl [too_small] else if length s > 500 then Inl [too_big]
        else Inr (trim s))"
  by (simp add: zString_def)

text \<open>
  C5 at a reason of one letter and four blanks, and at a reason of five blanks: both schemas
  accept the body, and the reason handed on has one character, or none. The ban-user
  request goes through, and the service is called with the one-letter reason.
\<close>

theorem reason_bounds_before_trim:
  "BanUserSchema [''idToken'' \<mapsto> JStr ''alice.token'', ''userId'' \<mapsto> JStr ''bob-uid-0002'',
                  ''reason'' \<mapsto> JStr ''a    '', ''duration'' \<mapsto> JNum 7]
     = Inr (''alice.token'', ''bob-uid-0002'', ''a'', 7)
   \<and> BanIPSchema stubEnv [''idToken'' \<mapsto> JStr ''alice.token'', ''ipAddress'' \<mapsto> JStr ''1.2.3.4'',
                  ''reason'' \<mapsto> JStr ''     '', ''duration'' \<mapsto> JNum 7]
     = Inr (''alice.token'', ''1.2.3.4'', [], 7)
   \<and> length (trim ''a    '') = 1
   \<and> sent (handleBanUser stubEnv stubDb
        [''idToken'' \<mapsto> JStr ''alice.token'', ''userId'' \<mapsto> JStr ''bob-uid-0002'',
         ''reason'' \<mapsto> JStr ''a    '', ''duration'' \<mapsto> JNum 7])
     = respond 200 (BanOk ''ban-1'')
   \<and> calls (handleBanUser stubEnv stubDb
        [''idToken'' \<mapsto> JStr ''alice.token'', ''userId'' \<mapsto> JStr ''bob-uid-0002'',
         ''reason'' \<mapsto> JStr ''a    '', ''duration'' \<mapsto> JNum 7])
     = [IdpVerify ''alice.token'', StoreGetUser ''alice-uid-01'',
        SvcBanUser ''alice-uid-01'' ''bob-uid-0002'' ''a'' 7]"
proof -
  let ?b = "[''idToken'' \<mapsto> JStr ''alice.token'', ''userId'' \<mapsto> JStr ''bob-uid-0002'',
             ''reason'' \<mapsto> JStr ''a    '', ''duration'' \<mapsto> JNum 7]"
  have s1: "BanUserSchema ?b = Inr (''alice.token'', ''bob-uid-0002'', ''a'', 7)"
    by (simp add: BanUserSchema_def idTokenField_def zString_def zInt_def
        tokenFormat_def tokenChar_def trim_def isWhiteSpace_def)
  have s2: "BanIPSchema stubEnv [''idToken'' \<mapsto> JStr ''alice.token'',
        ''ipAddress'' \<mapsto> JStr ''1.2.3.4'', ''reason'' \<mapsto> JStr ''     '', ''duration'' \<mapsto> JNum 7]
      = Inr (''alice.token'', ''1.2.3.4'', [], 7)"
    by (simp add: BanIPSchema_def idTokenField_def zString_def zInt_def zIp_def
        tokenFormat_def tokenChar_def trim_def isWhiteSpace_def stubEnv_def)
  have t: "length (trim ''a    '') = 1"
    by (simp add: trim_def isWhiteSpace_def)
  have v: "verifyAdmin stubEnv stubDb ''alice.token''
      = (Inr ''alice-uid-01'', [IdpVerify ''alice.token'', StoreGetUser ''alice-uid-01''])"
    by (simp add: verifyAdmin_def getUser_def truthyFlag_def truthy_def stubEnv_def stubDb_def stubIdp_def)
  have svc: "banUser stubEnv ''alice-uid-01'' ''bob-uid-0002'' ''a'' 7 stubDb = (Inr ''ban-1'', stubDb)"
    by (simp add: stubEnv_def) (simp add: stubDb_def)
  have h: "sent (handleBanUser stubEnv stubDb ?b) = respond 200 (BanOk ''ban-1'')
      \<and> calls (handleBanUser stubEnv stubDb ?b)
        = [IdpVerify ''alice.token'', StoreGetUser ''alice-uid-01'',
           SvcBanUser ''alice-uid-01'' ''bob-uid-0002'' ''a'' 7]"
    by (simp add: handleBanUser_def s1 v svc)
  from s1 s2 t h show ?thesis by blast
qed

lemma reasonField_rejects_iff:
  "(\<exists>errs. zString [MinLen 5, MaxLen 500, Trim] (Some (JStr s)) = Inl errs)
     \<longleftrightarrow> length s < 5 \<or> length s > 500"
  by (simp add: reasonField)

section \<open>Status codes of failed moderation requests\<close>

text \<open>
  Past validation and the privilege gate, an \<open>Error\<close> thrown by \<open>deleteUser\<close> is
  answered with 401 whatever its message, while \<open>handleBanUser\<close> answers the message
  \<open>User not found\<close> with 400.
\<close>

lemma deleteUser_error_status:
  assumes "DeleteUserSchema b = Inr (tok, target)"
    and "verifyAdmin e d tok = (Inr a, cs)"
    and "deleteUser e a target d = (Inl (JsError m), d')"
  shows "sent (handleDeleteUser e d b) = respond 401 (Failure ''Failed to delete user'' (Text m))"
  using assms by (simp add: handleDeleteUser_def isZodError_def messageOf_def)

lemma banUser_not_found_status:
  assumes "BanUserSchema b = Inr (tok, target, rsn, dur)"
    and "verifyAdmin e d tok = (Inr a, cs)"
    and "banUser e a target rsn dur d = (Inl (JsError ''User not found''), d')"
  shows "sent (handleBanUser e d b)
     = respond 400 (Failure ''Failed to ban user'' (Text ''User not found''))"
  using assms by (simp add: handleBanUser_def isZodError_def messageOf_def)

text \<open>
  C8 at a target without a user document (Dave), as admin Alice: deleting the user is
  answered with 401, banning the same user with 400.
\<close>

theorem deleteUser_not_found_is_401:
  "sent (handleDeleteUser stubEnv stubDb
          [''idToken'' \<mapsto> JStr ''alice.token'', ''userId'' \<mapsto> JStr ''dave-uid-004''])
     = respond 401 (Failure ''Failed to delete user'' (Text ''User not found''))
   \<and> sent (handleBanUser stubEnv stubDb
          [''idToken'' \<mapsto> JStr ''alice.token'', ''userId'' \<mapsto> JStr ''dave-uid-004'',
           ''reason'' \<mapsto> JStr ''spamming'', ''duration'' \<mapsto> JNum 7])
     = respond 400 (Failure ''Failed to ban user'' (Text ''User not found''))"
proof -
  have v: "verifyAdmin stubEnv stubDb ''alice.token''
      = (Inr ''alice-uid-01'', [IdpVerify ''alice.token'', StoreGetUser ''alice-uid-01''])"
    by (simp add: verifyAdmin_def getUser_def truthyFlag_def truthy_def stubEnv_def stubDb_def stubIdp_def)
  have s1: "DeleteUserSchema [''idToken'' \<mapsto> JStr ''alice.token'', ''userId'' \<mapsto> JStr ''dave-uid-004'']
      = Inr (''alice.token'', ''dave-uid-004'')"
    by (simp add: DeleteUserSchema_def idTokenField_def zString_def tokenFormat_def
        tokenChar_def)
  have s2: "BanUserSchema [''idToken'' \<mapsto> JStr ''alice.token'', ''userId'' \<mapsto> JStr ''dave-uid-004'',
           ''reason'' \<mapsto> JStr ''spamming'', ''duration'' \<mapsto> JNum 7]
      = Inr (''alice.token'', ''dave-uid-004'', ''spamming'', 7)"
    by (simp add: BanUserSchema_def idTokenField_def zString_def zInt_def tokenFormat_def
        tokenChar_def trim_def isWhiteSpace_def)
  have d1: "deleteUser stubEnv ''alice-uid-01'' ''dave-uid-004'' stubDb
      = (Inl (JsError ''User not found''), stubDb)"
    by (simp add: stubEnv_def) (simp add: stubDb_def)
  have d2: "banUser stubEnv ''alice-uid-01'' ''dave-uid-004'' ''spamming'' 7 stubDb
      = (Inl (JsError ''User not found''), stubDb)"
    by (simp add: stubEnv_def) (simp add: stubDb_def)
  from deleteUser_error_status [OF s1 v d1] banUser_not_found_status [OF s2 v d2]
  show ?thesis by simp
qed

section \<open>The query functions are not imported\<close>

text \<open>
  \<open>collection\<close> is the first function the three querying handlers call, and
  \<open>firebase-admin/firestore\<close> does not export it. So every request that passes the
  guard of \<open>handleCheckIPBan\<close>, \<open>handleCheckIPLimit\<close> or
  \<open>handleUpdateUserIPLogin\<close> throws inside \<open>try\<close> and is answered with status 500,
  and the store is left as it was.
\<close>

lemma collection_not_exported:
  "missingImport [''collection'', ''where'', ''query'', ''getDocs''] = Some ''collection''"
  by (simp add: missingImport_def adminFirestoreExports_def)

lemma getDocsWhere_throws:
  "getDocsWhere d coll p = Inl (JsError ''collection is not a function'')"
  by (simp add: getDocsWhere_def collection_not_exported)

lemma checkIPBan_throws:
  "a \<noteq> [] \<Longrightarrow>
     handleCheckIPBan now d (Some a) = (respond 500 (ErrorOnly ''Failed to check IP ban''), d)"
  by (simp add: handleCheckIPBan_def falsyStr_def bansWhereIp_def getDocsWhere_throws)

lemma checkIPLimit_throws:
  "a \<noteq> [] \<Longrightarrow> m \<noteq> 0 \<Longrightarrow>
     handleCheckIPLimit d (Some a) (Some m)
       = (respond 500 (ErrorOnly ''Failed to check IP limit''), d)"
  by (simp add: handleCheckIPLimit_def falsyStr_def falsyNum_def usagesWhereIp_def
      getDocsWhere_throws)

lemma updateUserIPLogin_throws:
  "u \<noteq> [] \<Longrightarrow> a \<noteq> [] \<Longrightarrow>
     handleUpdateUserIPLogin t1 t2 n d (Some u) (Some a)
       = (respond 500 (ErrorOnly ''Failed to update IP login''), d)"
  by (simp add: handleUpdateUserIPLogin_def falsyStr_def usagesWhereUser_def
      getDocsWhere_throws)

text \<open>
  C7 on the store of the example deployment, at an address without a ban, an address with an
  expired ban and an address with a running ban: each request is answered with status 500
  and the store is unchanged, so the expired ban is still there.
\<close>

theorem checkBan_answers_500:
  "''9.9.9.9'' \<notin> IPBan.ipAddress ` snd ` set (ip_bans stubDb)
   \<and> handleCheckIPBan 1000 stubDb (Some ''9.9.9.9'')
       = (respond 500 (ErrorOnly ''Failed to check IP ban''), stubDb)
   \<and> (''ban-a'', \<lparr>IPBan.ipAddress = ''1.2.3.4'', reason = ''abuse of the API'',
                    bannedAt = 0, expiresAt = Some 999\<rparr>) \<in> set (ip_bans stubDb)
   \<and> handleCheckIPBan 1000 stubDb (Some ''1.2.3.4'')
       = (respond 500 (ErrorOnly ''Failed to check IP ban''), stubDb)
   \<and> (''ban-b'', \<lparr>IPBan.ipAddress = ''5.6.7.8'', reason = ''spam flood'',
                    bannedAt = 0, expiresAt = Some 4600\<rparr>) \<in> set (ip_bans stubDb)
   \<and> handleCheckIPBan 1000 stubDb (Some ''5.6.7.8'')
       = (respond 500 (ErrorOnly ''Failed to check IP ban''), stubDb)"
proof -
  have st: "''9.9.9.9'' \<notin> IPBan.ipAddress ` snd ` set (ip_bans stubDb)"
    "(''ban-a'', \<lparr>IPBan.ipAddress = ''1.2.3.4'', reason = ''abuse of the API'',
                    bannedAt = 0, expiresAt = Some 999\<rparr>) \<in> set (ip_bans stubDb)"
    "(''ban-b'', \<lparr>IPBan.ipAddress = ''5.6.7.8'', reason = ''spam flood'',
                    bannedAt = 0, expiresAt = Some 4600\<rparr>) \<in> set (ip_bans stubDb)"
    by (simp_all add: stubDb_def)
  have "handleCheckIPBan 1000 stubDb (Some ''9.9.9.9'')
       = (respond 500 (ErrorOnly ''Failed to check IP ban''), stubDb)"
    "handleCheckIPBan 1000 stubDb (Some ''1.2.3.4'')
       = (respond 500 (ErrorOnly ''Failed to check IP ban''), stubDb)"
    "handleCheckIPBan 1000 stubDb (Some ''5.6.7.8'')
       = (respond 500 (ErrorOnly ''Failed to check IP ban''), stubDb)"
    by (simp_all add: checkIPBan_throws)
  with st show ?thesis by blast
qed

text \<open>
  C10 at the address of the permanent ban of the example deployment: whatever the time, the
  request is answered with status 500, not with \<open>banned\<close>.
\<close>

theorem permanent_ban_answers_500:
  "(''ban-c'', \<lparr>IPBan.ipAddress = ''10.0.0.1'', reason = ''botnet node'',
                 bannedAt = 0, expiresAt = None\<rparr>) \<in> set (ip_bans stubDb)
   \<and> handleCheckIPBan now stubDb (Some ''10.0.0.1'')
       = (respond 500 (ErrorOnly ''Failed to check IP ban''), stubDb)"
proof -
  have "(''ban-c'', \<lparr>IPBan.ipAddress = ''10.0.0.1'', reason = ''botnet node'',
                 bannedAt = 0, expiresAt = None\<rparr>) \<in> set (ip_bans stubDb)"
    by (simp add: stubDb_def)
  moreover have "handleCheckIPBan now stubDb (Some ''10.0.0.1'')
       = (respond 500 (ErrorOnly ''Failed to check IP ban''), stubDb)"
    by (simp add: checkIPBan_throws)
  ultimately show ?thesis by blast
qed

section \<open>Accounts per address\<close>




section \<open>Recording address usage\<close>







end
